theory Spec2Isabelle
  imports Complex_Main "HOL-Library.Word"
begin

unbundle bit_operations_syntax

section \<open>JavaScript values used by the table cell node\<close>

text \<open>
  Numbers. The header state and the row and column indices are integer-valued and are
  modelled as \<open>int\<close>. The pixel width is a JavaScript number that is divided
  (\<open>maxWidth / colCount\<close>): a finite number is an exact rational, and the values
  \<open>Infinity\<close>, \<open>-Infinity\<close> and \<open>NaN\<close> are values of their own.
\<close>

datatype number = Num rat | Infinity | NegInfinity | NaN

text \<open>
  A value of a maybe type (\<open>?number\<close>, \<open>?string\<close>) is \<open>undefined\<close>, \<open>null\<close> or a value
  of the type; an argument that a call leaves out is \<open>undefined\<close>.
\<close>

datatype 'a maybe = Undefined | Null | Val 'a

text \<open>
  \<open>ToBoolean\<close> on a number: \<open>undefined\<close>, \<open>null\<close>, \<open>0\<close> and \<open>NaN\<close> are falsy, every other
  number is truthy.
\<close>

fun truthy_number :: "number maybe \<Rightarrow> bool" where
  "truthy_number (Val (Num r)) = (r \<noteq> 0)"
| "truthy_number (Val Infinity) = True"
| "truthy_number (Val NegInfinity) = True"
| "truthy_number (Val NaN) = False"
| "truthy_number Undefined = False"
| "truthy_number Null = False"

text \<open>\<open>ToBoolean\<close> on a string: \<open>undefined\<close>, \<open>null\<close> and the empty string are falsy.\<close>

fun truthy_string :: "string maybe \<Rightarrow> bool" where
  "truthy_string (Val s) = (s \<noteq> [])"
| "truthy_string Undefined = False"
| "truthy_string Null = False"

text \<open>The template literal \<open>`${s}`\<close> on a maybe string.\<close>

fun template_string :: "string maybe \<Rightarrow> string" where
  "template_string (Val s) = s"
| "template_string Undefined = ''undefined''"
| "template_string Null = ''null''"

text \<open>
  \<open>a === b\<close> on maybe numbers: \<open>undefined\<close> and \<open>null\<close> are equal to themselves only, and
  \<open>NaN\<close> is equal to nothing, itself included.
\<close>

fun strict_equal :: "number maybe \<Rightarrow> number maybe \<Rightarrow> bool" where
  "strict_equal (Val a) (Val b) = (a \<noteq> NaN \<and> a = b)"
| "strict_equal Undefined Undefined = True"
| "strict_equal Null Null = True"
| "strict_equal (Val a) Undefined = False"
| "strict_equal (Val a) Null = False"
| "strict_equal Undefined (Val b) = False"
| "strict_equal Undefined Null = False"
| "strict_equal Null (Val b) = False"
| "strict_equal Null Undefined = False"

text \<open>
  \<open>a & b\<close> on integer-valued numbers: both operands are converted to 32-bit signed
  integers, the result is the signed reading of their bitwise conjunction.
\<close>

definition js_bitand :: "int \<Rightarrow> int \<Rightarrow> int" where
  "js_bitand a b = sint ((word_of_int a :: 32 word) AND word_of_int b)"

text \<open>\<open>a / b\<close> with a finite dividend and a child count as divisor.\<close>

definition js_divide :: "rat \<Rightarrow> nat \<Rightarrow> number" where
  "js_divide a n =
     (if n = 0
      then (if a = 0 then NaN else if 0 < a then Infinity else NegInfinity)
      else Num (a / of_nat n))"

text \<open>\<open>Math.max\<close> of two numbers: \<open>NaN\<close> when one of them is \<open>NaN\<close>.\<close>

fun Math_max :: "number \<Rightarrow> number \<Rightarrow> number" where
  "Math_max NaN _ = NaN"
| "Math_max _ NaN = NaN"
| "Math_max Infinity _ = Infinity"
| "Math_max _ Infinity = Infinity"
| "Math_max NegInfinity b = b"
| "Math_max a NegInfinity = a"
| "Math_max (Num a) (Num b) = Num (max a b)"

section \<open>The table cell node\<close>

type_synonym NodeKey = string

type_synonym TableCellHeaderState = int

definition NO_STATUS :: TableCellHeaderState where "NO_STATUS = 0"
definition ROW :: TableCellHeaderState where "ROW = 1"
definition COLUMN :: TableCellHeaderState where "COLUMN = 2"
definition BOTH :: TableCellHeaderState where "BOTH = 3"

text \<open>
  The fields of \<open>TableCellNode\<close> (\<open>__headerState\<close>, \<open>__colSpan\<close>, \<open>__width\<close>,
  \<open>__backgroundColorStyle\<close>, \<open>__borderStyle\<close>, \<open>__key\<close>). The key is the second argument
  of the super constructor; \<open>Undefined\<close> is a node built without a key, for which the
  host generates a new one.
\<close>

record TableCellNode =
  headerState :: TableCellHeaderState
  colSpan :: int
  width :: "number maybe"
  backgroundColorStyle :: "string maybe"
  borderStyle :: "string maybe"
  key :: "NodeKey maybe"

text \<open>
  The constructor, with its parameters in the order of the source: header state
  (default \<open>NO_STATUS\<close>), column span (default 1), width, background colour style, border
  style, key. For the two parameters with a default, \<open>None\<close> is the argument left out.
\<close>

definition new_TableCellNode ::
  "TableCellHeaderState option \<Rightarrow> int option \<Rightarrow> number maybe \<Rightarrow> string maybe \<Rightarrow>
   string maybe \<Rightarrow> NodeKey maybe \<Rightarrow> TableCellNode" where
  "new_TableCellNode headerState' colSpan' width' backgroundColorStyle' borderStyle' key' =
     \<lparr>headerState = (case headerState' of None \<Rightarrow> NO_STATUS | Some h \<Rightarrow> h),
      colSpan = (case colSpan' of None \<Rightarrow> 1 | Some c \<Rightarrow> c),
      width = width',
      backgroundColorStyle = backgroundColorStyle',
      borderStyle = borderStyle',
      key = key'\<rparr>"

text \<open>
  \<open>toggleHeaderStyle\<close>, on the writable node \<open>self\<close> that \<open>this.getWritable()\<close> returned;
  the method returns \<open>self\<close>.
\<close>

definition toggleHeaderStyle :: "TableCellNode \<Rightarrow> TableCellHeaderState \<Rightarrow> TableCellNode" where
  "toggleHeaderStyle self headerStateToToggle =
     (let self1 =
            (if js_bitand (headerState self) headerStateToToggle = headerStateToToggle
             then self\<lparr>headerState := headerState self - headerStateToToggle\<rparr>
             else self\<lparr>headerState := headerState self + headerStateToToggle\<rparr>)
      in self1\<lparr>headerState := headerState self1\<rparr>)"

text \<open>
  \<open>clone\<close> calls the constructor with five arguments: the header state, the column span,
  the width, \<open>node.__key\<close> and \<open>node.__backgroundColorStyle\<close>, in this order; the sixth
  parameter, the key, gets no argument.
\<close>

definition clone :: "TableCellNode \<Rightarrow> TableCellNode" where
  "clone node =
     new_TableCellNode (Some (headerState node)) (Some (colSpan node)) (width node)
       (key node) (backgroundColorStyle node) Undefined"

text \<open>
  \<open>$createTableCellNode(headerState, colSpan = 1, backgroundColorStyle, borderStyle, width)\<close>.
\<close>

definition createTableCellNode ::
  "TableCellHeaderState \<Rightarrow> int option \<Rightarrow> string maybe \<Rightarrow> string maybe \<Rightarrow>
   number maybe \<Rightarrow> TableCellNode" where
  "createTableCellNode headerState' colSpan' backgroundColorStyle' borderStyle' width' =
     new_TableCellNode (Some headerState')
       (Some (case colSpan' of None \<Rightarrow> 1 | Some c \<Rightarrow> c))
       width' backgroundColorStyle' borderStyle' Undefined"

text \<open>
  The getters read \<open>this.getLatest()\<close>; the node given to the model is that latest
  version.
\<close>

definition getHeaderStyles :: "TableCellNode \<Rightarrow> TableCellHeaderState" where
  "getHeaderStyles this = headerState this"

definition getWidth :: "TableCellNode \<Rightarrow> number maybe" where
  "getWidth this = width this"

definition hasHeaderState :: "TableCellNode \<Rightarrow> TableCellHeaderState \<Rightarrow> bool" where
  "hasHeaderState this headerState' =
     (js_bitand (getHeaderStyles this) headerState' = headerState')"

definition hasHeader :: "TableCellNode \<Rightarrow> bool" where
  "hasHeader this = (headerState this \<noteq> NO_STATUS)"

definition getTag :: "TableCellNode \<Rightarrow> string" where
  "getTag this = (if hasHeader this then ''th'' else ''td'')"

text \<open>
  \<open>updateDOM(prevNode)\<close>: both comparisons are \<open>!==\<close>; the header states are integers, the
  widths are maybe numbers.
\<close>

definition updateDOM :: "TableCellNode \<Rightarrow> TableCellNode \<Rightarrow> bool" where
  "updateDOM this prevNode =
     (headerState prevNode \<noteq> headerState this
      \<or> \<not> strict_equal (width prevNode) (width this))"

text \<open>
  Three properties are read by the class and assigned nowhere, neither by the constructor
  nor by a method: \<open>this.__bg\<close> (in \<open>createDOM\<close>), \<open>this.backgroundColorStyle\<close> (in
  \<open>setBg\<close>) and \<open>this.borderStyle\<close> (in \<open>setBorderStyle\<close>). Reading them yields
  \<open>undefined\<close>.
\<close>

definition prop__bg :: "TableCellNode \<Rightarrow> string maybe" where
  "prop__bg this = Undefined"

definition prop_backgroundColorStyle :: "TableCellNode \<Rightarrow> string maybe" where
  "prop_backgroundColorStyle this = Undefined"

definition prop_borderStyle :: "TableCellNode \<Rightarrow> string maybe" where
  "prop_borderStyle this = Undefined"

subsection \<open>Writable nodes\<close>

text \<open>
  Modelled from the spec: \<open>getWritable\<close> is the host's and not part of the source. The
  spec describes it as copy-on-write: a mutation works on a new snapshot of the node that
  is placed in the document tree under the same key, and the snapshot is made by the
  \<open>clone\<close> of the node's class; a node that is already writable in the running update
  is returned as it is. \<open>cloneNotNeeded\<close> says whether the node is already writable.
\<close>

definition getWritable :: "bool \<Rightarrow> TableCellNode \<Rightarrow> TableCellNode" where
  "getWritable cloneNotNeeded this =
     (if cloneNotNeeded then this else (clone this)\<lparr>key := key this\<rparr>)"

subsection \<open>The setters\<close>

text \<open>
  A setter writes to \<open>self = this.getWritable()\<close> and then reads a property of \<open>this\<close>
  for its return value, so the two references are kept apart: node objects live in a
  store, \<open>this\<close> and \<open>self\<close> are addresses, and \<open>self\<close> is what the host's
  \<open>getWritable\<close> returned. When the node is already in a writable snapshot, \<open>getWritable\<close>
  returns the node itself: \<open>self = this\<close>.
\<close>

type_synonym addr = nat

type_synonym store = "addr \<Rightarrow> TableCellNode"

definition setHeaderStyles ::
  "store \<Rightarrow> addr \<Rightarrow> addr \<Rightarrow> TableCellHeaderState \<Rightarrow> store \<times> TableCellHeaderState" where
  "setHeaderStyles h this self headerState' =
     (let h' = h(self := (h self)\<lparr>headerState := headerState'\<rparr>)
      in (h', headerState (h' this)))"

definition setWidth :: "store \<Rightarrow> addr \<Rightarrow> addr \<Rightarrow> number \<Rightarrow> store \<times> number maybe" where
  "setWidth h this self width' =
     (let h' = h(self := (h self)\<lparr>width := Val width'\<rparr>)
      in (h', width (h' this)))"

definition setBg :: "store \<Rightarrow> addr \<Rightarrow> addr \<Rightarrow> string \<Rightarrow> store \<times> string maybe" where
  "setBg h this self backgroundColorStyle' =
     (let h' = h(self := (h self)\<lparr>backgroundColorStyle := Val backgroundColorStyle'\<rparr>)
      in (h', prop_backgroundColorStyle (h' this)))"

definition setBorderStyle :: "store \<Rightarrow> addr \<Rightarrow> addr \<Rightarrow> string \<Rightarrow> store \<times> string maybe" where
  "setBorderStyle h this self borderStyle' =
     (let h' = h(self := (h self)\<lparr>borderStyle := Val borderStyle'\<rparr>)
      in (h', prop_borderStyle (h' this)))"

section \<open>Rendered elements\<close>

text \<open>
  An element is its tag, its class list and its inline style. A style property that has
  no value is \<open>None\<close>. The value \<open>`${n}px`\<close> of a number \<open>n\<close> is kept as \<open>Px n\<close>.
  \<open>createDOM\<close> and \<open>exportDOM\<close> work on an element that has just been made, and the
  record holds for each property the value that the code assigns to it. The action menu
  works on an element that is already on the page; there the setter of the style object
  is modelled too, see \<open>setStyleProperty\<close> below.
\<close>

datatype css_length = Px number

record CSSStyleDeclaration =
  css_width :: "css_length option"
  css_backgroundColor :: "string option"
  css_border :: "string option"
  css_borderTop :: "string option"
  css_borderBottom :: "string option"
  css_borderRight :: "string option"
  css_borderLeft :: "string option"
  css_borderRadius :: "string option"
  css_verticalAlign :: "string option"
  css_textAlign :: "string option"

record HTMLElement =
  tag :: string
  classList :: "string list"
  style :: CSSStyleDeclaration

definition createElement :: "string \<Rightarrow> HTMLElement" where
  "createElement tagName =
     \<lparr>tag = tagName, classList = [],
      style = \<lparr>css_width = None, css_backgroundColor = None, css_border = None,
               css_borderTop = None, css_borderBottom = None, css_borderRight = None,
               css_borderLeft = None, css_borderRadius = None, css_verticalAlign = None,
               css_textAlign = None\<rparr>\<rparr>"

record EditorThemeClasses =
  tableCell :: "string option"
  tableCellHeader :: "string option"

text \<open>
  Modelled from the spec: \<open>addClassNamesToElement\<close> of the host's utilities is not part of
  the source; the spec says that rendering applies the theme class names. Each argument
  that is a class name is added to the class list, an argument that is \<open>undefined\<close> or
  \<open>false\<close> is skipped.
\<close>

definition addClassNamesToElement :: "HTMLElement \<Rightarrow> string option list \<Rightarrow> HTMLElement" where
  "addClassNamesToElement element classNames =
     element\<lparr>classList := classList element @ List.map_filter id classNames\<rparr>"

definition createDOM :: "EditorThemeClasses \<Rightarrow> TableCellNode \<Rightarrow> HTMLElement" where
  "createDOM theme this =
     (let element = createElement (getTag this);
          element =
            (case width this of
               Val w \<Rightarrow>
                 if truthy_number (Val w)
                 then element\<lparr>style := (style element)\<lparr>css_width := Some (Px w)\<rparr>\<rparr>
                 else element
             | _ \<Rightarrow> element);
          element =
            (if truthy_string (prop__bg this)
             then element\<lparr>style := (style element)
                    \<lparr>css_backgroundColor :=
                       Some (template_string (backgroundColorStyle this))\<rparr>\<rparr>
             else element);
          element =
            (if truthy_string (borderStyle this)
             then element\<lparr>style := (style element)
                    \<lparr>css_border := Some (template_string (borderStyle this))\<rparr>\<rparr>
             else element)
      in addClassNamesToElement element
           [tableCell theme, if hasHeader this then tableCellHeader theme else None])"

text \<open>\<open>a || b\<close> on a maybe number and a number: \<open>b\<close> when \<open>a\<close> is falsy.\<close>

fun js_or :: "number maybe \<Rightarrow> number \<Rightarrow> number" where
  "js_or (Val a) b = (if truthy_number (Val a) then a else b)"
| "js_or Undefined b = b"
| "js_or Null b = b"

datatype error = Error string | TypeError | HostInvariant

text \<open>
  Modelled from the spec: the \<open>exportDOM\<close> of the host's base class is not part of the
  source. The spec has the export produce a stand-alone element for the node; the base
  class renders the node with its \<open>createDOM\<close> and hands that element over.
\<close>

definition super_exportDOM :: "EditorThemeClasses \<Rightarrow> TableCellNode \<Rightarrow> HTMLElement option" where
  "super_exportDOM theme this = Some (createDOM theme this)"

text \<open>
  \<open>exportDOM\<close>. Two results of the host are parameters: the element of
  \<open>super.exportDOM(editor)\<close>, which the code tests for null, and the parent's
  \<open>getChildrenSize()\<close>, \<open>None\<close> when the node has no parent and \<open>getParentOrThrow\<close>
  throws.
\<close>

definition maxWidth :: rat where "maxWidth = 700"

definition exportDOM ::
  "HTMLElement option \<Rightarrow> nat option \<Rightarrow> TableCellNode \<Rightarrow> error + HTMLElement option" where
  "exportDOM superElement parentChildrenSize this =
     (case superElement of
        None \<Rightarrow> Inr None
      | Some element \<Rightarrow>
          (case parentChildrenSize of
             None \<Rightarrow> Inl HostInvariant
           | Some colCount \<Rightarrow>
               (let st = style element;
                    st = st\<lparr>css_border := Some ''1px solid black''\<rparr>;
                    st = st\<lparr>css_width :=
                           Some (Px (js_or (getWidth this)
                                      (Math_max (Num 90) (js_divide maxWidth colCount))))\<rparr>;
                    st = st\<lparr>css_verticalAlign := Some ''top''\<rparr>;
                    st = st\<lparr>css_textAlign := Some ''start''\<rparr>;
                    st = (if hasHeader this
                          then st\<lparr>css_backgroundColor := Some ''#f2f3f5''\<rparr> else st)
                in Inr (Some (element\<lparr>style := st\<rparr>)))))"

text \<open>
  Modelled from the spec: the host's reconciliation of a node that an update has changed
  is not part of the source. \<open>updateDOM\<close> tells the host whether the rendered element is
  to be updated: on \<open>true\<close> the host renders the node anew with \<open>createDOM\<close>, on \<open>false\<close>
  it keeps the element that is there.
\<close>

definition reconcileElement ::
  "EditorThemeClasses \<Rightarrow> TableCellNode \<Rightarrow> TableCellNode \<Rightarrow> HTMLElement \<Rightarrow> HTMLElement" where
  "reconcileElement theme prevNode nextNode element =
     (if updateDOM nextNode prevNode then createDOM theme nextNode else element)"

section \<open>The document tree\<close>

text \<open>
  The node kinds that the code tells apart with \<open>$isTableCellNode\<close>, \<open>$isTableRowNode\<close>,
  \<open>$isElementNode\<close> and \<open>$isLineBreakNode\<close>. An element node carries its children; a
  line-break node and a text node carry what their \<open>getTextContent()\<close> returns. The code
  asks for the text content of a line-break node only; that of an element node is not
  modelled.
\<close>

datatype LexicalNode =
    TableCellN TableCellNode "LexicalNode list"
  | TableRowN "LexicalNode list"
  | ParagraphN "LexicalNode list"
  | LineBreakN string
  | TextN string

fun isTableCellNode :: "LexicalNode \<Rightarrow> bool" where
  "isTableCellNode (TableCellN _ _) = True"
| "isTableCellNode _ = False"

fun isTableRowNode :: "LexicalNode \<Rightarrow> bool" where
  "isTableRowNode (TableRowN _) = True"
| "isTableRowNode _ = False"

fun isElementNode :: "LexicalNode \<Rightarrow> bool" where
  "isElementNode (TableCellN _ _) = True"
| "isElementNode (TableRowN _) = True"
| "isElementNode (ParagraphN _) = True"
| "isElementNode _ = False"

fun isLineBreakNode :: "LexicalNode \<Rightarrow> bool" where
  "isLineBreakNode (LineBreakN _) = True"
| "isLineBreakNode _ = False"

fun getChildren :: "LexicalNode \<Rightarrow> LexicalNode list" where
  "getChildren (TableCellN _ cs) = cs"
| "getChildren (TableRowN cs) = cs"
| "getChildren (ParagraphN cs) = cs"
| "getChildren _ = []"

fun getTextContent :: "LexicalNode \<Rightarrow> string" where
  "getTextContent (LineBreakN s) = s"
| "getTextContent (TextN s) = s"
| "getTextContent _ = []"

section \<open>Conversion from markup\<close>

text \<open>\<open>toLowerCase\<close> on a node name: the letters \<open>A\<close> to \<open>Z\<close> are mapped to \<open>a\<close> to \<open>z\<close>.\<close>

definition lower_char :: "char \<Rightarrow> char" where
  "lower_char c =
     (case map_of (zip ''ABCDEFGHIJKLMNOPQRSTUVWXYZ'' ''abcdefghijklmnopqrstuvwxyz'') c of
        Some l \<Rightarrow> l
      | None \<Rightarrow> c)"

definition toLowerCase :: "string \<Rightarrow> string" where
  "toLowerCase s = map lower_char s"

record DOMConversionOutput =
  node :: TableCellNode
  forChild :: "LexicalNode \<Rightarrow> LexicalNode \<Rightarrow> LexicalNode option"

text \<open>
  The child mapping of \<open>convertTableCellNodeElement\<close>; \<open>None\<close> is its \<open>null\<close>. The paragraph
  is created before the line-break test and is used only when the child is wrapped.
\<close>

definition forChild_fn :: "LexicalNode \<Rightarrow> LexicalNode \<Rightarrow> LexicalNode option" where
  "forChild_fn lexicalNode parentLexicalNode =
     (if isTableCellNode parentLexicalNode \<and> \<not> isElementNode lexicalNode
      then (if isLineBreakNode lexicalNode \<and> getTextContent lexicalNode = [CHR 0x0A]
            then None
            else Some (ParagraphN [lexicalNode]))
      else Some lexicalNode)"

definition convertTableCellNodeElement :: "string \<Rightarrow> DOMConversionOutput" where
  "convertTableCellNodeElement domNodeName =
     (let nodeName = toLowerCase domNodeName;
          tableCellNode =
            createTableCellNode (if nodeName = ''th'' then ROW else NO_STATUS)
              None Undefined Undefined Undefined
      in \<lparr>node = tableCellNode, forChild = forChild_fn\<rparr>)"

text \<open>
  Modelled from the spec: the host's import loop, which is not part of the source. It
  passes every converted child of the element to the child mapping together with the new
  cell node as parent, drops a child that the mapping answers with null, and appends the
  others to the cell in their order.
\<close>

definition appendConvertedChildren :: "DOMConversionOutput \<Rightarrow> LexicalNode list \<Rightarrow> LexicalNode" where
  "appendConvertedChildren out children =
     TableCellN (node out)
       (List.map_filter (\<lambda>child. forChild out child (TableCellN (node out) [])) children)"

section \<open>The action menu\<close>

subsection \<open>Selection counts and row insertion\<close>

record GridSelectionShape =
  fromX :: int
  toX :: int
  fromY :: int
  toY :: int

datatype selection = GridSelection GridSelectionShape | RangeSelection | NoSelection

record SelectionCounts =
  columns :: int
  rows :: int

definition initialSelectionCounts :: SelectionCounts where
  "initialSelectionCounts = \<lparr>columns = 1, rows = 1\<rparr>"

text \<open>
  The effect that reads the selection once, when the menu is mounted (its dependency
  list holds the editor only).
\<close>

fun updateSelectionCountsEffect :: "selection \<Rightarrow> SelectionCounts \<Rightarrow> SelectionCounts" where
  "updateSelectionCountsEffect (GridSelection selectionShape) selectionCounts =
     \<lparr>columns = toX selectionShape - fromX selectionShape + 1,
      rows = toY selectionShape - fromY selectionShape + 1\<rparr>"
| "updateSelectionCountsEffect _ selectionCounts = selectionCounts"

definition openMenu :: "selection \<Rightarrow> SelectionCounts" where
  "openMenu selectionAtOpen = updateSelectionCountsEffect selectionAtOpen initialSelectionCounts"

text \<open>
  The operations that the menu issues to the host: index, \<open>shouldInsertAfter\<close> and count.
  The table node and the element grid, which the host resolves and gets back, are left
  out.
\<close>

datatype host_call =
    InsertTableRow int bool int
  | InsertTableColumn int bool int

text \<open>
  \<open>insertTableRowAtSelection\<close>, once the host has resolved the table of the anchor cell.
  \<open>anchorRowIndex\<close> is the result of \<open>$getTableRowIndexFromTableCellNode(tableCellNode)\<close>.
\<close>

fun insertTableRowAtSelection ::
  "SelectionCounts \<Rightarrow> selection \<Rightarrow> int \<Rightarrow> bool \<Rightarrow> host_call" where
  "insertTableRowAtSelection selectionCounts (GridSelection selectionShape) anchorRowIndex
       shouldInsertAfter =
     InsertTableRow (if shouldInsertAfter then toY selectionShape else fromY selectionShape)
       shouldInsertAfter (rows selectionCounts)"
| "insertTableRowAtSelection selectionCounts _ anchorRowIndex shouldInsertAfter =
     InsertTableRow anchorRowIndex shouldInsertAfter (rows selectionCounts)"

fun insertTableColumnAtSelection ::
  "SelectionCounts \<Rightarrow> selection \<Rightarrow> int \<Rightarrow> bool \<Rightarrow> host_call" where
  "insertTableColumnAtSelection selectionCounts (GridSelection selectionShape) anchorColumnIndex
       shouldInsertAfter =
     InsertTableColumn (if shouldInsertAfter then toX selectionShape else fromX selectionShape)
       shouldInsertAfter (columns selectionCounts)"
| "insertTableColumnAtSelection selectionCounts _ anchorColumnIndex shouldInsertAfter =
     InsertTableColumn anchorColumnIndex shouldInsertAfter (columns selectionCounts)"

subsection \<open>Toggling the column header\<close>

text \<open>
  \<open>tableCell.toggleHeaderStyle(headerState)\<close> on a node that is a table cell node: the
  method toggles the bit on \<open>this.getWritable()\<close>, and that node takes the place of the
  cell in the tree. \<open>cloneNotNeeded\<close> tells for each cell whether it is already writable
  in the running update.
\<close>

fun toggleCell ::
  "(TableCellNode \<Rightarrow> bool) \<Rightarrow> LexicalNode \<Rightarrow> TableCellHeaderState \<Rightarrow> LexicalNode" where
  "toggleCell cloneNotNeeded (TableCellN cell cs) headerStateToToggle =
     TableCellN (toggleHeaderStyle (getWritable (cloneNotNeeded cell) cell) headerStateToToggle)
       cs"
| "toggleCell cloneNotNeeded n headerStateToToggle = n"

text \<open>An update in which no cell has been written to yet: every cell is still committed.\<close>

definition noneWritable :: "TableCellNode \<Rightarrow> bool" where
  "noneWritable cell = False"

text \<open>
  The loop of \<open>toggleTableColumnIsHeader\<close> over the rows from the current one on. A
  \<open>throw\<close> ends the update; the host then discards what the update has changed, so the
  result is the error alone.
\<close>

fun toggleColumnRows ::
  "(TableCellNode \<Rightarrow> bool) \<Rightarrow> int \<Rightarrow> LexicalNode list \<Rightarrow> error + LexicalNode list" where
  "toggleColumnRows cloneNotNeeded tableColumnIndex [] = Inr []"
| "toggleColumnRows cloneNotNeeded tableColumnIndex (tableRow # rest) =
     (if \<not> isTableRowNode tableRow then Inl (Error ''Expected table row'')
      else
        let tableCells = getChildren tableRow in
        if tableColumnIndex \<ge> int (length tableCells) \<or> tableColumnIndex < 0
        then Inl (Error ''Expected table cell to be inside of table row.'')
        else
          let tableCell = tableCells ! nat tableColumnIndex in
          if \<not> isTableCellNode tableCell then Inl (Error ''Expected table cell'')
          else
            (case toggleColumnRows cloneNotNeeded tableColumnIndex rest of
               Inl e \<Rightarrow> Inl e
             | Inr rest' \<Rightarrow>
                 Inr (TableRowN
                        (tableCells[nat tableColumnIndex :=
                           toggleCell cloneNotNeeded tableCell COLUMN])
                        # rest')))"

text \<open>
  \<open>toggleTableColumnIsHeader\<close>, once the host has resolved the table of the anchor cell:
  \<open>tableColumnIndex\<close> is the result of \<open>$getTableColumnIndexFromTableCellNode\<close> and
  \<open>tableRows\<close> that of \<open>tableNode.getChildren()\<close>. The result holds the rows after the
  update.
\<close>

definition toggleTableColumnIsHeader ::
  "(TableCellNode \<Rightarrow> bool) \<Rightarrow> int \<Rightarrow> LexicalNode list \<Rightarrow> error + LexicalNode list" where
  "toggleTableColumnIsHeader cloneNotNeeded tableColumnIndex tableRows =
     toggleColumnRows cloneNotNeeded tableColumnIndex tableRows"

subsection \<open>Styling a cell\<close>

text \<open>
  The draft values of the styling form, with the initial values that \<open>useState\<close> gives
  them.
\<close>

record CellStyleDraft =
  cellBackgroundColor :: string
  cellBorderColor :: string
  cellBorderStyle :: string
  cellBorderWidth :: string
  cellBorderTopColor :: string
  cellBorderTopStyle :: string
  cellBorderTopWidth :: string
  cellBorderBottomColor :: string
  cellBorderBottomStyle :: string
  cellBorderBottomWidth :: string
  cellBorderLeftColor :: string
  cellBorderLeftStyle :: string
  cellBorderLeftWidth :: string
  cellBorderRightColor :: string
  cellBorderRightStyle :: string
  cellBorderRightWidth :: string

record ComposedCellStyles =
  cellStyle :: string
  topBorderCellStyle :: string
  bottomBorderCellStyle :: string
  leftBorderCellStyle :: string
  rightBorderCellStyle :: string


definition initialComposedCellStyles :: ComposedCellStyles where
  "initialComposedCellStyles =
     \<lparr>cellStyle = '''', topBorderCellStyle = '''', bottomBorderCellStyle = '''',
      leftBorderCellStyle = '''', rightBorderCellStyle = ''''\<rparr>"

text \<open>The template \<open>`${width}px ${style} ${color}`\<close> that each of the five effects uses.\<close>

definition borderShorthand :: "string \<Rightarrow> string \<Rightarrow> string \<Rightarrow> string" where
  "borderShorthand borderWidth borderStyle' borderColor =
     borderWidth @ ''px '' @ borderStyle' @ '' '' @ borderColor"

text \<open>
  The five effects. Each runs after the first render and after every render in which one
  of its three draft values has changed, so the composed strings that a click handler
  sees are those of the current draft.
\<close>

definition composeEffects :: "CellStyleDraft \<Rightarrow> ComposedCellStyles \<Rightarrow> ComposedCellStyles" where
  "composeEffects draft composed =
     composed
       \<lparr>cellStyle :=
          borderShorthand (cellBorderWidth draft) (cellBorderStyle draft) (cellBorderColor draft),
        topBorderCellStyle :=
          borderShorthand (cellBorderTopWidth draft) (cellBorderTopStyle draft)
            (cellBorderTopColor draft),
        bottomBorderCellStyle :=
          borderShorthand (cellBorderBottomWidth draft) (cellBorderBottomStyle draft)
            (cellBorderBottomColor draft),
        rightBorderCellStyle :=
          borderShorthand (cellBorderRightWidth draft) (cellBorderRightStyle draft)
            (cellBorderRightColor draft),
        leftBorderCellStyle :=
          borderShorthand (cellBorderLeftWidth draft) (cellBorderLeftStyle draft)
            (cellBorderLeftColor draft)\<rparr>"

text \<open>
  The setter of a style property is the browser's and not part of the source. It parses
  the assigned string as a value of the property: a string that the parser accepts becomes
  the value of the property, any other string is discarded and the property keeps what it
  had. The parser is a parameter.
\<close>

definition setStyleProperty :: "(string \<Rightarrow> bool) \<Rightarrow> string \<Rightarrow> string option \<Rightarrow> string option" where
  "setStyleProperty accepts v old = (if accepts v then Some v else old)"

text \<open>
  One guarded assignment of \<open>styleCellOptions\<close>: nothing happens for a falsy string; a
  truthy one is assigned through \<open>elemKey.style\<close>, which throws when
  \<open>editor.getElementByKey\<close> has returned null. The update then clears the table selection
  and closes the menu, which changes no style property.
\<close>

definition assignIfTruthy ::
  "string \<Rightarrow> (string \<Rightarrow> HTMLElement \<Rightarrow> HTMLElement) \<Rightarrow> error + HTMLElement option \<Rightarrow>
   error + HTMLElement option" where
  "assignIfTruthy s assign r =
     (case r of
        Inl e \<Rightarrow> Inl e
      | Inr elemKey \<Rightarrow>
          if truthy_string (Val s)
          then (case elemKey of None \<Rightarrow> Inl TypeError | Some el \<Rightarrow> Inr (Some (assign s el)))
          else Inr elemKey)"

text \<open>
  \<open>styleCellOptions\<close>. \<open>acceptsBorder\<close> is the browser's parser for the value of a border
  edge. The corner radius is assigned the constant \<open>10px\<close>, which is a radius.
\<close>

definition styleCellOptions ::
  "(string \<Rightarrow> bool) \<Rightarrow> string \<Rightarrow> string \<Rightarrow> string \<Rightarrow> string \<Rightarrow> string \<Rightarrow> string \<Rightarrow>
   HTMLElement option \<Rightarrow> error + HTMLElement option" where
  "styleCellOptions acceptsBorder cellStyle' cellBackgroundColor' topBorderCellStyle'
       bottomBorderCellStyle' rightBorderCellStyle' leftBorderCellStyle' elemKey =
     (let r = Inr elemKey;
          r = assignIfTruthy topBorderCellStyle'
                (\<lambda>s el. el\<lparr>style := (style el)
                   \<lparr>css_borderTop := setStyleProperty acceptsBorder s (css_borderTop (style el)),
                    css_borderRadius := Some ''10px''\<rparr>\<rparr>) r;
          r = assignIfTruthy bottomBorderCellStyle'
                (\<lambda>s el. el\<lparr>style := (style el)
                   \<lparr>css_borderBottom :=
                      setStyleProperty acceptsBorder s (css_borderBottom (style el))\<rparr>\<rparr>) r;
          r = assignIfTruthy rightBorderCellStyle'
                (\<lambda>s el. el\<lparr>style := (style el)
                   \<lparr>css_borderRight :=
                      setStyleProperty acceptsBorder s (css_borderRight (style el))\<rparr>\<rparr>) r;
          r = assignIfTruthy leftBorderCellStyle'
                (\<lambda>s el. el\<lparr>style := (style el)
                   \<lparr>css_borderLeft :=
                      setStyleProperty acceptsBorder s (css_borderLeft (style el))\<rparr>\<rparr>) r
      in r)"

text \<open>
  The click on "Set cell option": the handler passes the composed strings of the current
  render to \<open>styleCellOptions\<close>.
\<close>

definition clickSetCellOption ::
  "(string \<Rightarrow> bool) \<Rightarrow> CellStyleDraft \<Rightarrow> HTMLElement option \<Rightarrow> error + HTMLElement option" where
  "clickSetCellOption acceptsBorder draft elemKey =
     (let composed = composeEffects draft initialComposedCellStyles
      in styleCellOptions acceptsBorder (cellStyle composed) (cellBackgroundColor draft)
           (topBorderCellStyle composed) (bottomBorderCellStyle composed)
           (rightBorderCellStyle composed) (leftBorderCellStyle composed) elemKey)"

section \<open>Toggling a header bit\<close>

lemma js_bitand_small:
  "js_bitand 0 1 = 0" "js_bitand 1 1 = 1" "js_bitand 2 1 = 0" "js_bitand 3 1 = 1"
  "js_bitand 0 2 = 0" "js_bitand 1 2 = 0" "js_bitand 2 2 = 2" "js_bitand 3 2 = 2"
  by (simp_all add: js_bitand_def)

lemma toggleHeaderStyle_xor:
  assumes "headerState n \<in> {0, 1, 2, 3}" and "m \<in> {ROW, COLUMN}"
  shows "toggleHeaderStyle n m = n\<lparr>headerState := headerState n XOR m\<rparr>"
  using assms
  by (auto simp: toggleHeaderStyle_def ROW_def COLUMN_def js_bitand_small)

text \<open>
  Claim C1. For every header state \<open>b\<close> in \<open>{0, 1, 2, 3}\<close> and every bit \<open>m\<close> in
  \<open>{ROW, COLUMN}\<close>, \<open>toggleHeaderStyle m\<close> changes nothing but the header state, which
  becomes \<open>b XOR m\<close> and is again in \<open>{0, 1, 2, 3}\<close>; toggling \<open>m\<close> a second time gives
  back the node with header state \<open>b\<close>.
\<close>

theorem toggleHeaderStyle_flips_exactly_bit:
  assumes "headerState n \<in> {0, 1, 2, 3}" and "m \<in> {ROW, COLUMN}"
  shows "toggleHeaderStyle n m = n\<lparr>headerState := headerState n XOR m\<rparr>
       \<and> headerState (toggleHeaderStyle n m) \<in> {0, 1, 2, 3}
       \<and> toggleHeaderStyle (toggleHeaderStyle n m) m = n"
proof -
  have step: "toggleHeaderStyle n m = n\<lparr>headerState := headerState n XOR m\<rparr>"
    using assms by (rule toggleHeaderStyle_xor)
  have range: "headerState n XOR m \<in> {0, 1, 2, 3}"
    using assms by (auto simp: ROW_def COLUMN_def)
  have "toggleHeaderStyle (n\<lparr>headerState := headerState n XOR m\<rparr>) m
          = n\<lparr>headerState := (headerState n XOR m) XOR m\<rparr>"
    using toggleHeaderStyle_xor [of "n\<lparr>headerState := headerState n XOR m\<rparr>" m] range assms(2)
    by simp
  moreover have "(headerState n XOR m) XOR m = headerState n"
    by (simp add: xor.assoc)
  ultimately have twice: "toggleHeaderStyle (toggleHeaderStyle n m) m = n"
    using step by simp
  show ?thesis using step range twice by simp
qed

theorem toggleHeaderStyle_flips_exactly_bit_witness:
  "headerState (new_TableCellNode (Some ROW) None Undefined Undefined Undefined (Val ''7''))
     \<in> {0, 1, 2, 3}
   \<and> COLUMN \<in> {ROW, COLUMN}
   \<and> toggleHeaderStyle
       (new_TableCellNode (Some ROW) None Undefined Undefined Undefined (Val ''7'')) COLUMN
     = new_TableCellNode (Some BOTH) None Undefined Undefined Undefined (Val ''7'')
   \<and> toggleHeaderStyle
       (toggleHeaderStyle
          (new_TableCellNode (Some ROW) None Undefined Undefined Undefined (Val ''7'')) COLUMN)
       COLUMN
     = new_TableCellNode (Some ROW) None Undefined Undefined Undefined (Val ''7'')"
proof -
  let ?n = "new_TableCellNode (Some ROW) None Undefined Undefined Undefined (Val ''7'')"
  have h: "headerState ?n \<in> {0, 1, 2, 3}"
    by (simp add: new_TableCellNode_def ROW_def)
  have m: "COLUMN \<in> {ROW, COLUMN}" by simp
  have x: "?n\<lparr>headerState := headerState ?n XOR COLUMN\<rparr>
           = new_TableCellNode (Some BOTH) None Undefined Undefined Undefined (Val ''7'')"
    by (simp add: new_TableCellNode_def ROW_def COLUMN_def BOTH_def)
  from toggleHeaderStyle_flips_exactly_bit [OF h m] h m x show ?thesis
    by metis
qed

section \<open>Cloning\<close>

lemma clone_fields:
  "headerState (clone n) = headerState n \<and> colSpan (clone n) = colSpan n
   \<and> width (clone n) = width n \<and> backgroundColorStyle (clone n) = key n
   \<and> borderStyle (clone n) = backgroundColorStyle n \<and> key (clone n) = Undefined"
  by (simp add: clone_def new_TableCellNode_def)

text \<open>
  Claim C2 says that \<open>clone\<close> returns a node with the key and the header state, column
  span, width and background colour style of the original. The code, at a row-header
  cell with key \<open>5\<close>, width 120 and background \<open>red\<close>: the clone keeps the header
  state, the column span and the width, but its background colour style is the key of
  the original, its border style is the background of the original, and it is built
  without a key.
\<close>

theorem clone_loses_key_and_background:
  "clone \<lparr>headerState = 1, colSpan = 1, width = Val (Num 120),
          backgroundColorStyle = Val ''red'', borderStyle = Undefined, key = Val ''5''\<rparr>
     = \<lparr>headerState = 1, colSpan = 1, width = Val (Num 120),
        backgroundColorStyle = Val ''5'', borderStyle = Val ''red'', key = Undefined\<rparr>"
  by (simp add: clone_def new_TableCellNode_def)

section \<open>The style setters\<close>

lemma setters_store:
  "width (fst (setWidth h this self w) self) = Val w"
  "backgroundColorStyle (fst (setBg h this self bg) self) = Val bg"
  "borderStyle (fst (setBorderStyle h this self bs) self) = Val bs"
  by (simp_all add: setWidth_def setBg_def setBorderStyle_def)

lemma setters_return:
  "snd (setWidth h this this w) = Val w"
  "snd (setBg h this self bg) = Undefined"
  "snd (setBorderStyle h this self bs) = Undefined"
  by (simp_all add: setWidth_def setBg_def setBorderStyle_def prop_backgroundColorStyle_def
      prop_borderStyle_def)

text \<open>
  Claim C7 says that \<open>setWidth\<close>, \<open>setBg\<close> and \<open>setBorderStyle\<close>, called on a node in a
  writable snapshot, store the value and return it. The code, on a writable node
  (\<open>self = this\<close>, at address 0): all three store the value; \<open>setWidth\<close> returns it, \<open>setBg\<close>
  and \<open>setBorderStyle\<close> return \<open>undefined\<close>.
\<close>

theorem setBg_setBorderStyle_return_undefined:
  "width
     (fst (setWidth (\<lambda>a. createTableCellNode 0 None Undefined Undefined Undefined) 0 0
        (Num 120)) 0)
     = Val (Num 120)
   \<and> snd (setWidth (\<lambda>a. createTableCellNode 0 None Undefined Undefined Undefined) 0 0
        (Num 120))
     = Val (Num 120)
   \<and> backgroundColorStyle
       (fst (setBg (\<lambda>a. createTableCellNode 0 None Undefined Undefined Undefined) 0 0
          ''red'') 0)
     = Val ''red''
   \<and> snd (setBg (\<lambda>a. createTableCellNode 0 None Undefined Undefined Undefined) 0 0 ''red'')
     = Undefined
   \<and> borderStyle
       (fst (setBorderStyle (\<lambda>a. createTableCellNode 0 None Undefined Undefined Undefined) 0 0
          ''1px solid red'') 0)
     = Val ''1px solid red''
   \<and> snd (setBorderStyle (\<lambda>a. createTableCellNode 0 None Undefined Undefined Undefined) 0 0
          ''1px solid red'')
     = Undefined"
  by (simp add: setWidth_def setBg_def setBorderStyle_def prop_backgroundColorStyle_def
      prop_borderStyle_def)

section \<open>Updating the rendered element\<close>

lemma strict_equal_iff: "strict_equal a b \<longleftrightarrow> a = b \<and> a \<noteq> Val NaN"
  by (cases a; cases b) auto

text \<open>
  Claim C10, as stated, fails. The two nodes below have the same header state and the
  same width, which is \<open>NaN\<close>, and differ in the background colour style only;
  \<open>updateDOM\<close> returns true, since \<open>!==\<close> tells \<open>NaN\<close> from itself.
\<close>

theorem updateDOM_counterexample:
  "headerState ((createTableCellNode ROW None Undefined Undefined (Val NaN))
                  \<lparr>backgroundColorStyle := Val ''red''\<rparr>)
     = headerState (createTableCellNode ROW None Undefined Undefined (Val NaN))
   \<and> width ((createTableCellNode ROW None Undefined Undefined (Val NaN))
                  \<lparr>backgroundColorStyle := Val ''red''\<rparr>)
     = width (createTableCellNode ROW None Undefined Undefined (Val NaN))
   \<and> updateDOM
       ((createTableCellNode ROW None Undefined Undefined (Val NaN))
          \<lparr>backgroundColorStyle := Val ''red''\<rparr>)
       (createTableCellNode ROW None Undefined Undefined (Val NaN)) = True"
  by (simp add: updateDOM_def createTableCellNode_def new_TableCellNode_def)

text \<open>
  Claim C10, amended. \<open>updateDOM\<close> returns true when the width of the current node is
  \<open>NaN\<close>; for every other width it returns true exactly when the header state or the
  width of the previous node differs from that of the current node. When the width is
  not \<open>NaN\<close> and the current node differs from the previous one in the background colour
  style and the border style only, \<open>updateDOM\<close> returns false and the host keeps the
  rendered element as it is.
\<close>

theorem updateDOM_ignores_style_fields:
  "(width this = Val NaN \<longrightarrow> updateDOM this prevNode)
   \<and> (width this \<noteq> Val NaN \<longrightarrow>
        (updateDOM this prevNode \<longleftrightarrow>
           headerState prevNode \<noteq> headerState this \<or> width prevNode \<noteq> width this))
   \<and> (width prevNode \<noteq> Val NaN \<longrightarrow>
        updateDOM (prevNode\<lparr>backgroundColorStyle := bg, borderStyle := bs\<rparr>) prevNode = False
        \<and> reconcileElement theme prevNode
             (prevNode\<lparr>backgroundColorStyle := bg, borderStyle := bs\<rparr>) element = element)"
  by (auto simp: updateDOM_def reconcileElement_def strict_equal_iff)

theorem updateDOM_ignores_style_fields_witness:
  "width (createTableCellNode 1 None Undefined Undefined (Val (Num 120))) \<noteq> Val NaN
   \<and> updateDOM (createTableCellNode 1 None Undefined Undefined (Val (Num 120)))
       (createTableCellNode 1 None Undefined Undefined (Val (Num 90))) = True
   \<and> width (createTableCellNode 1 None Undefined Undefined (Val (Num 90))) \<noteq> Val NaN
   \<and> updateDOM
       ((createTableCellNode 1 None Undefined Undefined (Val (Num 90)))
          \<lparr>backgroundColorStyle := Val ''red'', borderStyle := Val ''1px solid red''\<rparr>)
       (createTableCellNode 1 None Undefined Undefined (Val (Num 90))) = False
   \<and> reconcileElement \<lparr>tableCell = Some ''cell'', tableCellHeader = Some ''header''\<rparr>
       (createTableCellNode 1 None Undefined Undefined (Val (Num 90)))
       ((createTableCellNode 1 None Undefined Undefined (Val (Num 90)))
          \<lparr>backgroundColorStyle := Val ''red'', borderStyle := Val ''1px solid red''\<rparr>)
       (createElement ''th'')
     = createElement ''th''"
  using updateDOM_ignores_style_fields
      [of "createTableCellNode 1 None Undefined Undefined (Val (Num 120))"
          "createTableCellNode 1 None Undefined Undefined (Val (Num 90))"]
    updateDOM_ignores_style_fields
      [of _ "createTableCellNode 1 None Undefined Undefined (Val (Num 90))"
          "Val ''red''" "Val ''1px solid red''"
          "\<lparr>tableCell = Some ''cell'', tableCellHeader = Some ''header''\<rparr>"
          "createElement ''th''"]
  by (simp add: createTableCellNode_def new_TableCellNode_def)

section \<open>Inserting rows\<close>

text \<open>
  Claim C5. The row index of the insert-row operation is the top edge \<open>fromY\<close> of the grid
  selection for "above" and its bottom edge \<open>toY\<close> for "below" when a grid selection is
  active, and the row index of the anchor cell otherwise. The insertion count is the row
  count that was read when the menu was opened: \<open>toY - fromY + 1\<close> of the grid selection
  of that moment, and 1 when there was none. For a selection of the rows 2 to 4 with the
  anchor in row 3, "above" issues index 2 with count 3 and "below" index 4 with count 3.
\<close>

theorem insertTableRowAtSelection_index_and_count:
  "insertTableRowAtSelection selectionCounts (GridSelection s) anchorRow False
     = InsertTableRow (fromY s) False (rows selectionCounts)
   \<and> insertTableRowAtSelection selectionCounts (GridSelection s) anchorRow True
     = InsertTableRow (toY s) True (rows selectionCounts)
   \<and> insertTableRowAtSelection selectionCounts RangeSelection anchorRow after
     = InsertTableRow anchorRow after (rows selectionCounts)
   \<and> insertTableRowAtSelection selectionCounts NoSelection anchorRow after
     = InsertTableRow anchorRow after (rows selectionCounts)
   \<and> rows (openMenu (GridSelection s0)) = toY s0 - fromY s0 + 1
   \<and> rows (openMenu RangeSelection) = 1
   \<and> rows (openMenu NoSelection) = 1
   \<and> insertTableRowAtSelection
       (openMenu (GridSelection \<lparr>fromX = 0, toX = 1, fromY = 2, toY = 4\<rparr>))
       (GridSelection \<lparr>fromX = 0, toX = 1, fromY = 2, toY = 4\<rparr>) 3 False
     = InsertTableRow 2 False 3
   \<and> insertTableRowAtSelection
       (openMenu (GridSelection \<lparr>fromX = 0, toX = 1, fromY = 2, toY = 4\<rparr>))
       (GridSelection \<lparr>fromX = 0, toX = 1, fromY = 2, toY = 4\<rparr>) 3 True
     = InsertTableRow 4 True 3"
  by (simp add: openMenu_def initialSelectionCounts_def)

section \<open>Conversion of a table cell element\<close>

text \<open>
  Claim C6. An element whose lower-cased node name is \<open>th\<close> is converted to a new cell
  node with header state \<open>ROW\<close>, one whose name is \<open>td\<close> to a new cell node with header
  state \<open>NO_STATUS\<close>. For a child of the cell that is not an element node the child
  mapping answers null when the child is a line-break node whose text content is exactly
  one newline, and the child wrapped in a new paragraph node otherwise. Converting a
  \<open>TH\<close> element whose only child is such a line break gives a \<open>ROW\<close> header cell without
  children.
\<close>

theorem convertTableCellNodeElement_header_and_children:
  "(toLowerCase nodeName = ''th'' \<longrightarrow>
      node (convertTableCellNodeElement nodeName) = createTableCellNode ROW None Undefined Undefined Undefined)
   \<and> (toLowerCase nodeName = ''td'' \<longrightarrow>
      node (convertTableCellNodeElement nodeName)
        = createTableCellNode NO_STATUS None Undefined Undefined Undefined)
   \<and> (isTableCellNode parent \<and> \<not> isElementNode child \<longrightarrow>
        forChild (convertTableCellNodeElement nodeName) child parent
          = (if child = LineBreakN [CHR 0x0A] then None else Some (ParagraphN [child])))
   \<and> appendConvertedChildren (convertTableCellNodeElement ''TH'') [LineBreakN [CHR 0x0A]]
        = TableCellN (createTableCellNode ROW None Undefined Undefined Undefined) []"
proof -
  have th: "toLowerCase nodeName = ''th'' \<longrightarrow>
      node (convertTableCellNodeElement nodeName) = createTableCellNode ROW None Undefined Undefined Undefined"
    by (simp add: convertTableCellNodeElement_def)
  have td: "toLowerCase nodeName = ''td'' \<longrightarrow>
      node (convertTableCellNodeElement nodeName)
        = createTableCellNode NO_STATUS None Undefined Undefined Undefined"
    by (simp add: convertTableCellNodeElement_def)
  have child: "isTableCellNode parent \<and> \<not> isElementNode child \<longrightarrow>
        forChild (convertTableCellNodeElement nodeName) child parent
          = (if child = LineBreakN [CHR 0x0A] then None else Some (ParagraphN [child]))"
    by (cases child) (auto simp: convertTableCellNodeElement_def forChild_fn_def)
  have lone: "appendConvertedChildren (convertTableCellNodeElement ''TH'') [LineBreakN [CHR 0x0A]]
        = TableCellN (createTableCellNode ROW None Undefined Undefined Undefined) []"
    by (simp add: appendConvertedChildren_def convertTableCellNodeElement_def forChild_fn_def
        toLowerCase_def lower_char_def)
  from th td child lone show ?thesis by blast
qed

theorem convertTableCellNodeElement_header_and_children_witness:
  "toLowerCase ''TH'' = ''th''
   \<and> headerState (node (convertTableCellNodeElement ''TH'')) = 1
   \<and> toLowerCase ''TD'' = ''td''
   \<and> headerState (node (convertTableCellNodeElement ''TD'')) = 0
   \<and> isTableCellNode (TableCellN (createTableCellNode ROW None Undefined Undefined Undefined) [])
   \<and> \<not> isElementNode (TextN ''a'')
   \<and> forChild (convertTableCellNodeElement ''TH'') (TextN ''a'')
        (TableCellN (createTableCellNode ROW None Undefined Undefined Undefined) [])
      = Some (ParagraphN [TextN ''a''])
   \<and> \<not> isElementNode (LineBreakN [CHR 0x0A])
   \<and> forChild (convertTableCellNodeElement ''TH'') (LineBreakN [CHR 0x0A])
        (TableCellN (createTableCellNode ROW None Undefined Undefined Undefined) [])
      = None"
proof -
  have th: "toLowerCase ''TH'' = ''th''" and td: "toLowerCase ''TD'' = ''td''"
    by (simp_all add: toLowerCase_def lower_char_def)
  have row: "headerState (createTableCellNode ROW None Undefined Undefined Undefined) = 1"
    and plain: "headerState (createTableCellNode NO_STATUS None Undefined Undefined Undefined) = 0"
    by (simp_all add: createTableCellNode_def new_TableCellNode_def ROW_def NO_STATUS_def)
  show ?thesis
    using th td row plain
      convertTableCellNodeElement_header_and_children
        [of "''TH''" "TableCellN (createTableCellNode ROW None Undefined Undefined Undefined) []" "TextN ''a''"]
      convertTableCellNodeElement_header_and_children
        [of "''TD''" "TableCellN (createTableCellNode ROW None Undefined Undefined Undefined) []"
            "LineBreakN [CHR 0x0A]"]
      convertTableCellNodeElement_header_and_children
        [of "''TH''" "TableCellN (createTableCellNode ROW None Undefined Undefined Undefined) []"
            "LineBreakN [CHR 0x0A]"]
    by simp
qed

section \<open>Toggling the column header\<close>

lemma getWritable_headerState: "headerState (getWritable b n) = headerState n"
  by (simp add: getWritable_def clone_fields)

lemma toggleColumnRows_Inl:
  "(\<exists>e. toggleColumnRows w c rs = Inl e) \<longleftrightarrow>
   (\<exists>r \<in> set rs. \<not> isTableRowNode r \<or> c < 0 \<or> int (length (getChildren r)) \<le> c
        \<or> \<not> isTableCellNode (getChildren r ! nat c))"
  by (induction rs) (auto simp: Let_def split: sum.splits)

lemma toggleColumnRows_Inr:
  "toggleColumnRows w c rs = Inr rs' \<Longrightarrow>
   rs' = map (\<lambda>r. TableRowN
           ((getChildren r)[nat c := toggleCell w (getChildren r ! nat c) COLUMN])) rs"
  by (induction rs arbitrary: rs') (auto simp: Let_def split: sum.splits if_splits)

text \<open>
  Claim C8, as stated, fails: the update also raises an error when a child of the table
  is not a table row node. The table below has two children. The first is a row whose
  only cell, with key \<open>a\<close>, is the anchor, so the column index of the anchor is 0. The
  second is a paragraph node that holds a table cell. For both children the index 0 is
  within the bounds of the children, and the child at that index is a table cell node;
  the update raises "Expected table row".
\<close>

theorem toggleTableColumnIsHeader_counterexample:
  "toggleTableColumnIsHeader noneWritable 0
     [TableRowN
        [TableCellN (new_TableCellNode (Some 0) (Some 1) Undefined Undefined Undefined
                       (Val ''a'')) []],
      ParagraphN
        [TableCellN (new_TableCellNode (Some 0) (Some 1) Undefined Undefined Undefined
                       (Val ''b'')) []]]
     = Inl (Error ''Expected table row'')
   \<and> \<not> ((0::int) < 0
         \<or> int (length (getChildren
               (TableRowN
                  [TableCellN (new_TableCellNode (Some 0) (Some 1) Undefined Undefined Undefined
                                 (Val ''a'')) []]))) \<le> 0
         \<or> \<not> isTableCellNode
             (getChildren
                (TableRowN
                   [TableCellN (new_TableCellNode (Some 0) (Some 1) Undefined Undefined Undefined
                                  (Val ''a'')) []])
              ! nat 0))
   \<and> \<not> ((0::int) < 0
         \<or> int (length (getChildren
               (ParagraphN
                  [TableCellN (new_TableCellNode (Some 0) (Some 1) Undefined Undefined Undefined
                                 (Val ''b'')) []]))) \<le> 0
         \<or> \<not> isTableCellNode
             (getChildren
                (ParagraphN
                   [TableCellN (new_TableCellNode (Some 0) (Some 1) Undefined Undefined Undefined
                                  (Val ''b'')) []])
              ! nat 0))"
  by (simp add: toggleTableColumnIsHeader_def)

text \<open>
  Claim C8, amended. Once the host has resolved the table and the column index of the
  anchor cell, the update raises an error if and only if some child of the table is not
  a table row node, or the column index is outside the bounds of its children, or its
  child at that index is not a table cell node. Otherwise every row comes back with the
  cell at the column index replaced by the result of \<open>toggleHeaderStyle(COLUMN)\<close> and all
  its other cells unchanged. That result is the writable node of the cell with, for a
  header state in \<open>{0, 1, 2, 3}\<close>, the \<open>COLUMN\<close> bit of the header state flipped.
\<close>

theorem toggleTableColumnIsHeader_error_iff_malformed:
  "((\<exists>e. toggleTableColumnIsHeader cloneNotNeeded c tableRows = Inl e) \<longleftrightarrow>
      (\<exists>r \<in> set tableRows.
          \<not> isTableRowNode r \<or> c < 0 \<or> int (length (getChildren r)) \<le> c
          \<or> \<not> isTableCellNode (getChildren r ! nat c)))
   \<and> (toggleTableColumnIsHeader cloneNotNeeded c tableRows = Inr rows' \<longrightarrow>
        rows' = map (\<lambda>r. TableRowN
                  ((getChildren r)
                     [nat c := toggleCell cloneNotNeeded (getChildren r ! nat c) COLUMN]))
                  tableRows)
   \<and> (headerState cell \<in> {0, 1, 2, 3} \<longrightarrow>
        toggleCell cloneNotNeeded (TableCellN cell cs) COLUMN
          = TableCellN
              ((getWritable (cloneNotNeeded cell) cell)
                 \<lparr>headerState := headerState cell XOR COLUMN\<rparr>) cs)"
  using toggleColumnRows_Inl [of cloneNotNeeded c tableRows]
    toggleColumnRows_Inr [of cloneNotNeeded c tableRows rows']
    toggleHeaderStyle_xor [of "getWritable (cloneNotNeeded cell) cell" COLUMN]
  by (simp add: toggleTableColumnIsHeader_def getWritable_headerState)

theorem toggleTableColumnIsHeader_error_iff_malformed_witness:
  "toggleTableColumnIsHeader noneWritable 1
     [TableRowN
        [TableCellN (new_TableCellNode (Some 0) (Some 1) Undefined Undefined Undefined
                       (Val ''a1'')) [],
         TableCellN (new_TableCellNode (Some 1) (Some 1) Undefined (Val ''red'') Undefined
                       (Val ''a2'')) []],
      TableRowN
        [TableCellN (new_TableCellNode (Some 0) (Some 1) Undefined Undefined Undefined
                       (Val ''b1'')) [],
         TableCellN (new_TableCellNode (Some 2) (Some 1) Undefined Undefined Undefined
                       (Val ''b2'')) []]]
   = Inr
     [TableRowN
        [TableCellN (new_TableCellNode (Some 0) (Some 1) Undefined Undefined Undefined
                       (Val ''a1'')) [],
         TableCellN (new_TableCellNode (Some 3) (Some 1) Undefined (Val ''a2'') (Val ''red'')
                       (Val ''a2'')) []],
      TableRowN
        [TableCellN (new_TableCellNode (Some 0) (Some 1) Undefined Undefined Undefined
                       (Val ''b1'')) [],
         TableCellN (new_TableCellNode (Some 0) (Some 1) Undefined (Val ''b2'') Undefined
                       (Val ''b2'')) []]]
   \<and> toggleTableColumnIsHeader noneWritable 1
     [TableRowN
        [TableCellN (new_TableCellNode (Some 0) (Some 1) Undefined Undefined Undefined
                       (Val ''a1'')) [],
         TableCellN (new_TableCellNode (Some 1) (Some 1) Undefined (Val ''red'') Undefined
                       (Val ''a2'')) []],
      TableRowN
        [TableCellN (new_TableCellNode (Some 0) (Some 1) Undefined Undefined Undefined
                       (Val ''b1'')) []]]
   = Inl (Error ''Expected table cell to be inside of table row.'')"
proof -
  let ?a1 = "new_TableCellNode (Some 0) (Some 1) Undefined Undefined Undefined (Val ''a1'')"
  let ?a2 = "new_TableCellNode (Some 1) (Some 1) Undefined (Val ''red'') Undefined (Val ''a2'')"
  let ?b1 = "new_TableCellNode (Some 0) (Some 1) Undefined Undefined Undefined (Val ''b1'')"
  let ?b2 = "new_TableCellNode (Some 2) (Some 1) Undefined Undefined Undefined (Val ''b2'')"
  let ?a2' = "new_TableCellNode (Some 3) (Some 1) Undefined (Val ''a2'') (Val ''red'') (Val ''a2'')"
  let ?b2' = "new_TableCellNode (Some 0) (Some 1) Undefined (Val ''b2'') Undefined (Val ''b2'')"
  let ?w = "noneWritable"
  let ?T = "[TableRowN [TableCellN ?a1 [], TableCellN ?a2 []],
             TableRowN [TableCellN ?b1 [], TableCellN ?b2 []]]"
  let ?U = "[TableRowN [TableCellN ?a1 [], TableCellN ?a2 []], TableRowN [TableCellN ?b1 []]]"
  have well_formed: "\<not> (\<exists>r \<in> set ?T.
          \<not> isTableRowNode r \<or> (1::int) < 0 \<or> int (length (getChildren r)) \<le> 1
          \<or> \<not> isTableCellNode (getChildren r ! nat 1))"
    by simp
  from well_formed toggleTableColumnIsHeader_error_iff_malformed [of ?w 1 ?T]
  have "\<not> (\<exists>e. toggleTableColumnIsHeader ?w 1 ?T = Inl e)"
    by blast
  then obtain rows' where r: "toggleTableColumnIsHeader ?w 1 ?T = Inr rows'"
    by (cases "toggleTableColumnIsHeader ?w 1 ?T") auto
  with toggleTableColumnIsHeader_error_iff_malformed [of ?w 1 ?T rows'] have
    "rows' = map (\<lambda>r. TableRowN
                  ((getChildren r)[nat 1 := toggleCell ?w (getChildren r ! nat 1) COLUMN])) ?T"
    by blast
  moreover have "toggleCell ?w (TableCellN ?a2 []) COLUMN = TableCellN ?a2' []"
    using toggleTableColumnIsHeader_error_iff_malformed [of ?w 1 ?T rows' ?a2 "[]"]
    by (simp add: new_TableCellNode_def COLUMN_def getWritable_def clone_def noneWritable_def)
  moreover have "toggleCell ?w (TableCellN ?b2 []) COLUMN = TableCellN ?b2' []"
    using toggleTableColumnIsHeader_error_iff_malformed [of ?w 1 ?T rows' ?b2 "[]"]
    by (simp add: new_TableCellNode_def COLUMN_def getWritable_def clone_def noneWritable_def)
  ultimately have "rows' = [TableRowN [TableCellN ?a1 [], TableCellN ?a2' []],
      TableRowN [TableCellN ?b1 [], TableCellN ?b2' []]]"
    by simp
  with r have first: "toggleTableColumnIsHeader ?w 1 ?T
      = Inr [TableRowN [TableCellN ?a1 [], TableCellN ?a2' []],
             TableRowN [TableCellN ?b1 [], TableCellN ?b2' []]]"
    by simp
  have second: "toggleTableColumnIsHeader ?w 1 ?U
      = Inl (Error ''Expected table cell to be inside of table row.'')"
    by (simp add: toggleTableColumnIsHeader_def)
  from first second show ?thesis by blast
qed

section \<open>Rendering a cell\<close>

lemma truthy_number_Val: "truthy_number (Val w) \<longleftrightarrow> w \<noteq> Num 0 \<and> w \<noteq> NaN"
  by (cases w) simp_all

text \<open>
  The background colour style of the cell never reaches the rendered element:
  \<open>createDOM\<close> guards the assignment with \<open>this.__bg\<close>, a property that nothing assigns,
  where the field is \<open>__backgroundColorStyle\<close>. Whatever the cell holds, the element
  comes back without a background colour.
\<close>

lemma createDOM_background_never_applied:
  "css_backgroundColor (style (createDOM theme this)) = None"
  by (simp add: createDOM_def Let_def addClassNamesToElement_def createElement_def prop__bg_def
      split: maybe.splits)

text \<open>
  Claim C4, as stated, fails, in two ways. The first two cells below are row headers
  with the width set to 0 and to \<open>NaN\<close>: the element that \<open>createDOM\<close> returns has no
  width. The third is a row header with width 120 and background colour style \<open>red\<close>:
  the element has the width and no background colour.
\<close>

theorem createDOM_counterexample:
  "width (createTableCellNode ROW None Undefined Undefined (Val (Num 0))) = Val (Num 0)
   \<and> css_width (style (createDOM \<lparr>tableCell = Some ''cell'', tableCellHeader = Some ''header''\<rparr>
        (createTableCellNode ROW None Undefined Undefined (Val (Num 0))))) = None
   \<and> width (createTableCellNode ROW None Undefined Undefined (Val NaN)) = Val NaN
   \<and> css_width (style (createDOM \<lparr>tableCell = Some ''cell'', tableCellHeader = Some ''header''\<rparr>
        (createTableCellNode ROW None Undefined Undefined (Val NaN)))) = None
   \<and> backgroundColorStyle (createTableCellNode ROW None (Val ''red'') Undefined (Val (Num 120)))
       = Val ''red''
   \<and> css_width (style (createDOM \<lparr>tableCell = Some ''cell'', tableCellHeader = Some ''header''\<rparr>
        (createTableCellNode ROW None (Val ''red'') Undefined (Val (Num 120)))))
       = Some (Px (Num 120))
   \<and> css_backgroundColor
        (style (createDOM \<lparr>tableCell = Some ''cell'', tableCellHeader = Some ''header''\<rparr>
           (createTableCellNode ROW None (Val ''red'') Undefined (Val (Num 120))))) = None"
  by (simp add: createDOM_def createTableCellNode_def new_TableCellNode_def createElement_def
      getTag_def hasHeader_def prop__bg_def addClassNamesToElement_def ROW_def NO_STATUS_def)

text \<open>
  Claim C4, amended. The element that \<open>createDOM\<close> returns has the tag \<open>th\<close> when
  \<open>hasHeader()\<close> is true and \<open>td\<close> otherwise, where \<open>hasHeader()\<close> is true exactly when
  the header state is not \<open>NO_STATUS\<close>; its inline width is the width of the cell
  whenever that is a number other than 0 and \<open>NaN\<close>, and its inline border is the border
  style of the cell whenever that is a string other than the empty one.
\<close>

theorem createDOM_tag_width_border:
  "tag (createDOM theme this) = (if hasHeader this then ''th'' else ''td'')
   \<and> (hasHeader this \<longleftrightarrow> headerState this \<noteq> NO_STATUS)
   \<and> (width this = Val w \<and> w \<noteq> Num 0 \<and> w \<noteq> NaN \<longrightarrow>
        css_width (style (createDOM theme this)) = Some (Px w))
   \<and> (borderStyle this = Val b \<and> b \<noteq> [] \<longrightarrow>
        css_border (style (createDOM theme this)) = Some b)"
proof -
  have t: "tag (createDOM theme this) = (if hasHeader this then ''th'' else ''td'')"
    by (simp add: createDOM_def Let_def addClassNamesToElement_def createElement_def getTag_def
        split: maybe.splits)
  have h: "hasHeader this \<longleftrightarrow> headerState this \<noteq> NO_STATUS"
    by (simp add: hasHeader_def)
  have w: "width this = Val w \<and> w \<noteq> Num 0 \<and> w \<noteq> NaN \<longrightarrow>
        css_width (style (createDOM theme this)) = Some (Px w)"
    by (auto simp: createDOM_def Let_def addClassNamesToElement_def truthy_number_Val)
  have b: "borderStyle this = Val b \<and> b \<noteq> [] \<longrightarrow>
        css_border (style (createDOM theme this)) = Some b"
    by (simp add: createDOM_def Let_def addClassNamesToElement_def split: maybe.splits)
  from t h w b show ?thesis by blast
qed

theorem createDOM_tag_width_border_witness:
  "width (createTableCellNode ROW None Undefined (Val ''1px solid red'') (Val (Num 120)))
     = Val (Num 120)
   \<and> Num 120 \<noteq> Num 0 \<and> Num 120 \<noteq> NaN
   \<and> borderStyle (createTableCellNode ROW None Undefined (Val ''1px solid red'') (Val (Num 120)))
     = Val ''1px solid red''
   \<and> tag (createDOM \<lparr>tableCell = Some ''cell'', tableCellHeader = Some ''header''\<rparr>
         (createTableCellNode ROW None Undefined (Val ''1px solid red'') (Val (Num 120))))
       = ''th''
   \<and> css_width (style (createDOM \<lparr>tableCell = Some ''cell'', tableCellHeader = Some ''header''\<rparr>
         (createTableCellNode ROW None Undefined (Val ''1px solid red'') (Val (Num 120)))))
       = Some (Px (Num 120))
   \<and> css_border (style (createDOM \<lparr>tableCell = Some ''cell'', tableCellHeader = Some ''header''\<rparr>
         (createTableCellNode ROW None Undefined (Val ''1px solid red'') (Val (Num 120)))))
       = Some ''1px solid red''"
  using createDOM_tag_width_border
      [of "\<lparr>tableCell = Some ''cell'', tableCellHeader = Some ''header''\<rparr>"
          "createTableCellNode ROW None Undefined (Val ''1px solid red'') (Val (Num 120))"
          "Num 120" "''1px solid red''"]
  by (simp add: createTableCellNode_def new_TableCellNode_def hasHeader_def ROW_def NO_STATUS_def)

section \<open>Exporting a cell\<close>

lemma computed_width:
  "0 < colCount \<Longrightarrow>
   Math_max (Num 90) (js_divide maxWidth colCount) = Num (max 90 (700 / of_nat colCount))"
  by (simp add: js_divide_def maxWidth_def)

text \<open>
  Claim C9, as stated, fails. The first cell below has its width set to 0, the second has
  it set to \<open>NaN\<close>; each is one of the two children of its row. The exported element has
  the computed width 350 in both cases, not the width that was set.
\<close>

theorem exportDOM_counterexample:
  "width (createTableCellNode NO_STATUS None Undefined Undefined (Val (Num 0))) = Val (Num 0)
   \<and> map_sum id (map_option (css_width \<circ> style))
        (exportDOM
           (super_exportDOM \<lparr>tableCell = Some ''cell'', tableCellHeader = Some ''header''\<rparr>
              (createTableCellNode NO_STATUS None Undefined Undefined (Val (Num 0))))
           (Some 2)
           (createTableCellNode NO_STATUS None Undefined Undefined (Val (Num 0))))
      = Inr (Some (Some (Px (Num 350))))
   \<and> Px (Num 350) \<noteq> Px (Num 0)
   \<and> width (createTableCellNode NO_STATUS None Undefined Undefined (Val NaN)) = Val NaN
   \<and> map_sum id (map_option (css_width \<circ> style))
        (exportDOM
           (super_exportDOM \<lparr>tableCell = Some ''cell'', tableCellHeader = Some ''header''\<rparr>
              (createTableCellNode NO_STATUS None Undefined Undefined (Val NaN)))
           (Some 2)
           (createTableCellNode NO_STATUS None Undefined Undefined (Val NaN)))
      = Inr (Some (Some (Px (Num 350))))
   \<and> Px (Num 350) \<noteq> Px NaN"
  by (simp add: exportDOM_def super_exportDOM_def createTableCellNode_def new_TableCellNode_def
      getWidth_def hasHeader_def js_divide_def maxWidth_def NO_STATUS_def)

text \<open>
  Claim C9, amended. For a cell whose parent has \<open>colCount\<close> children, \<open>exportDOM\<close>
  returns the element of the base class with the border \<open>1px solid black\<close>; with the
  width of the cell when that is a number other than 0 and \<open>NaN\<close>, and with the computed
  width \<open>Math.max(90, 700 / colCount)\<close> when the width of the cell is \<open>undefined\<close>,
  \<open>null\<close>, 0 or \<open>NaN\<close>, which for a parent with at least one child is the greater of
  90 and the quotient; and with the background \<open>#f2f3f5\<close> exactly when the cell has a
  header.
\<close>

theorem exportDOM_border_width_shading:
  "\<exists>e. exportDOM (super_exportDOM theme this) (Some colCount) this = Inr (Some e)
     \<and> css_border (style e) = Some ''1px solid black''
     \<and> (width this = Val w \<and> w \<noteq> Num 0 \<and> w \<noteq> NaN \<longrightarrow> css_width (style e) = Some (Px w))
     \<and> (width this \<in> {Undefined, Null, Val (Num 0), Val NaN} \<longrightarrow>
          css_width (style e) = Some (Px (Math_max (Num 90) (js_divide 700 colCount))))
     \<and> (0 < colCount \<longrightarrow>
          Math_max (Num 90) (js_divide 700 colCount) = Num (max 90 (700 / of_nat colCount)))
     \<and> (css_backgroundColor (style e) = Some ''#f2f3f5'' \<longleftrightarrow> hasHeader this)"
proof -
  obtain e where e: "exportDOM (super_exportDOM theme this) (Some colCount) this = Inr (Some e)"
    by (simp add: exportDOM_def super_exportDOM_def Let_def)
  have b: "css_border (style e) = Some ''1px solid black''"
    using e by (auto simp: exportDOM_def super_exportDOM_def Let_def split: if_splits)
  have wd: "css_width (style e)
      = Some (Px (js_or (width this) (Math_max (Num 90) (js_divide 700 colCount))))"
    using e
    by (auto simp: exportDOM_def super_exportDOM_def Let_def getWidth_def maxWidth_def
        split: if_splits)
  have w1: "width this = Val w \<and> w \<noteq> Num 0 \<and> w \<noteq> NaN \<longrightarrow> css_width (style e) = Some (Px w)"
    using wd by (auto simp: truthy_number_Val)
  have w2: "width this \<in> {Undefined, Null, Val (Num 0), Val NaN} \<longrightarrow>
          css_width (style e) = Some (Px (Math_max (Num 90) (js_divide 700 colCount)))"
    using wd by auto
  have w3: "0 < colCount \<longrightarrow>
          Math_max (Num 90) (js_divide 700 colCount) = Num (max 90 (700 / of_nat colCount))"
    using computed_width [of colCount] by (simp add: maxWidth_def)
  have bg: "css_backgroundColor (style e)
      = (if hasHeader this then Some ''#f2f3f5''
         else css_backgroundColor (style (createDOM theme this)))"
    using e by (auto simp: exportDOM_def super_exportDOM_def Let_def split: if_splits)
  have h: "css_backgroundColor (style e) = Some ''#f2f3f5'' \<longleftrightarrow> hasHeader this"
    using bg by (simp add: createDOM_background_never_applied)
  from e b w1 w2 w3 h show ?thesis by blast
qed

theorem exportDOM_border_width_shading_witness:
  "width (createTableCellNode ROW None Undefined Undefined Undefined)
     \<in> {Undefined, Null, Val (Num 0), Val NaN}
   \<and> (0::nat) < 3
   \<and> hasHeader (createTableCellNode ROW None Undefined Undefined Undefined)
   \<and> map_sum id (map_option style)
        (exportDOM
           (super_exportDOM \<lparr>tableCell = Some ''cell'', tableCellHeader = Some ''header''\<rparr>
              (createTableCellNode ROW None Undefined Undefined Undefined))
           (Some 3)
           (createTableCellNode ROW None Undefined Undefined Undefined))
      = Inr (Some ((style (createElement ''th''))
             \<lparr>css_border := Some ''1px solid black'', css_width := Some (Px (Num (700 / 3))),
              css_verticalAlign := Some ''top'', css_textAlign := Some ''start'',
              css_backgroundColor := Some ''#f2f3f5''\<rparr>))
   \<and> width (createTableCellNode NO_STATUS None Undefined Undefined (Val (Num 120)))
      = Val (Num 120)
   \<and> Num 120 \<noteq> Num 0 \<and> Num 120 \<noteq> NaN
   \<and> \<not> hasHeader (createTableCellNode NO_STATUS None Undefined Undefined (Val (Num 120)))
   \<and> map_sum id (map_option style)
        (exportDOM
           (super_exportDOM \<lparr>tableCell = Some ''cell'', tableCellHeader = Some ''header''\<rparr>
              (createTableCellNode NO_STATUS None Undefined Undefined (Val (Num 120))))
           (Some 3)
           (createTableCellNode NO_STATUS None Undefined Undefined (Val (Num 120))))
      = Inr (Some ((style (createElement ''td''))
             \<lparr>css_border := Some ''1px solid black'', css_width := Some (Px (Num 120)),
              css_verticalAlign := Some ''top'', css_textAlign := Some ''start''\<rparr>))"
  using exportDOM_border_width_shading
      [of "\<lparr>tableCell = Some ''cell'', tableCellHeader = Some ''header''\<rparr>"
          "createTableCellNode ROW None Undefined Undefined Undefined" 3]
    exportDOM_border_width_shading
      [of "\<lparr>tableCell = Some ''cell'', tableCellHeader = Some ''header''\<rparr>"
          "createTableCellNode NO_STATUS None Undefined Undefined (Val (Num 120))" 3 "Num 120"]
  by (simp add: exportDOM_def super_exportDOM_def createDOM_def addClassNamesToElement_def
      getTag_def prop__bg_def createTableCellNode_def new_TableCellNode_def createElement_def
      getWidth_def hasHeader_def js_divide_def maxWidth_def NO_STATUS_def ROW_def)

section \<open>Applying the cell style\<close>

text \<open>
  The string that an effect composes is never empty, so the guards of \<open>styleCellOptions\<close>
  let every composed string through: each click assigns all four edges and the corner
  radius, also for an edge whose draft values are empty.
\<close>

lemma borderShorthand_truthy: "truthy_string (Val (borderShorthand w s c))"
  by (simp add: borderShorthand_def)

lemma borderShorthand_empty: "borderShorthand [] [] [] = ''px  ''"
  by (simp add: borderShorthand_def)

lemma styleCellOptions_element:
  "styleCellOptions acc cs bg topStyle bottomStyle rightStyle leftStyle (Some el)
   = Inr (Some (el\<lparr>style := (style el)
       \<lparr>css_borderTop :=
          (if topStyle \<noteq> [] then setStyleProperty acc topStyle (css_borderTop (style el))
           else css_borderTop (style el)),
        css_borderRadius :=
          (if topStyle \<noteq> [] then Some ''10px'' else css_borderRadius (style el)),
        css_borderBottom :=
          (if bottomStyle \<noteq> []
           then setStyleProperty acc bottomStyle (css_borderBottom (style el))
           else css_borderBottom (style el)),
        css_borderRight :=
          (if rightStyle \<noteq> []
           then setStyleProperty acc rightStyle (css_borderRight (style el))
           else css_borderRight (style el)),
        css_borderLeft :=
          (if leftStyle \<noteq> [] then setStyleProperty acc leftStyle (css_borderLeft (style el))
           else css_borderLeft (style el))\<rparr>\<rparr>))"
  by (simp add: styleCellOptions_def assignIfTruthy_def Let_def)

lemma clickSetCellOption_rounds_corners:
  "\<exists>e. clickSetCellOption acc draft (Some el) = Inr (Some e)
     \<and> css_borderRadius (style e) = Some ''10px''"
  by (simp add: clickSetCellOption_def Let_def styleCellOptions_element composeEffects_def
      borderShorthand_def)



end
